theory Spec2Isabelle
  imports Main
begin

section \<open>The file-sharing front end (frontend/src/App.js)\<close>

text \<open>
  App.js holds React components with state (\<open>FileUploader\<close>, \<open>SearchBar\<close>,
  \<open>App\<close>) or without (\<open>AIAnalysisCard\<close>, \<open>FileCard\<close>, \<open>Analytics\<close>). Each
  \<open>useState\<close> cell is a field of a record, each handler a function from the state
  before to the state after, paired with the list of effects it performs in program
  order: HTTP requests through axios, \<open>console.error\<close> lines and \<open>alert\<close> boxes.

  A handler that awaits a request receives the outcome of that request as an argument
  and is run to completion with it; a search and a reset whose requests are in flight
  together are composed from the parts of the handlers that run after the \<open>await\<close>.
  Paths are written relative to the environment's \<open>REACT_APP_BACKEND_URL\<close>.
\<close>

subsection \<open>Requests, outcomes and effects\<close>

text \<open>An awaited axios promise either rejects (the \<open>catch\<close> branch runs) or resolves
  with \<open>response.data\<close>.\<close>

datatype 'a outcome = Rejected | Resolved 'a

text \<open>The browser's \<open>File\<close> object, as far as the component reads it.\<close>

record file_ref =
  name :: string
  size :: nat

text \<open>\<open>FormData.append\<close> stores a blob or the string form of its argument.\<close>

datatype form_value = Blob file_ref | Field string

text \<open>The object \<open>SearchBar\<close> hands to \<open>onSearch\<close>: \<open>{query, tags}\<close>, \<open>tags\<close> an array
  or \<open>null\<close>.\<close>

datatype search_params = SearchParams string "string list option"

datatype body = FormData "(string \<times> form_value) list" | Json search_params

datatype effect =
    AxiosGet string
  | AxiosPost string body
  | ConsoleError string
  | Alert string

definition API :: string where
  "API = ''/api''"

text \<open>The upload endpoint's reply \<open>{success, id, ...}\<close>; the code reads \<open>success\<close>
  only and passes the object on.\<close>

record upload_result =
  success :: bool
  result_id :: string

subsection \<open>FileUploader (lines 9-140)\<close>

record uploader_state =
  "file" :: "file_ref option"
  tags :: string
  isPublic :: bool
  uploading :: bool
  dragOver :: bool

text \<open>The arguments of the five \<open>useState\<close> calls.\<close>

definition FileUploader_init :: uploader_state where
  "FileUploader_init =
     \<lparr>file = None, tags = '''', isPublic = False, uploading = False, dragOver = False\<rparr>"

text \<open>\<open>files[0]\<close> of an empty file list is \<open>undefined\<close>: the argument is optional.\<close>

definition handleFileSelect :: "file_ref option \<Rightarrow> uploader_state \<Rightarrow> uploader_state" where
  "handleFileSelect selectedFile u = u\<lparr>file := selectedFile\<rparr>"

definition handleDrop :: "file_ref option \<Rightarrow> uploader_state \<Rightarrow> uploader_state" where
  "handleDrop droppedFile u =
     (let u1 = u\<lparr>dragOver := False\<rparr>
      in case droppedFile of
           None \<Rightarrow> u1
         | Some f \<Rightarrow> handleFileSelect (Some f) u1)"

definition handleDragOver :: "uploader_state \<Rightarrow> uploader_state" where
  "handleDragOver u = u\<lparr>dragOver := True\<rparr>"

definition handleDragLeave :: "uploader_state \<Rightarrow> uploader_state" where
  "handleDragLeave u = u\<lparr>dragOver := False\<rparr>"

definition setTags :: "string \<Rightarrow> uploader_state \<Rightarrow> uploader_state" where
  "setTags v u = u\<lparr>tags := v\<rparr>"

definition setIsPublic :: "bool \<Rightarrow> uploader_state \<Rightarrow> uploader_state" where
  "setIsPublic v u = u\<lparr>isPublic := v\<rparr>"

text \<open>Lines 43-46: the multipart payload; a boolean is appended as its string.\<close>

definition upload_formData :: "file_ref \<Rightarrow> uploader_state \<Rightarrow> (string \<times> form_value) list" where
  "upload_formData f u =
     [(''file'', Blob f),
      (''tags'', Field (tags u)),
      (''is_public'', Field (if isPublic u then ''true'' else ''false''))]"

text \<open>
  Lines 48-60, the \<open>try\<close> block after the request was sent. \<open>Inl\<close> is the thrown
  error of a rejected request; \<open>Inr\<close> the state and effects of a normal completion.
  \<open>onUploadSuccess\<close> is the callback prop: it acts on the parent's state \<open>'p\<close>.
\<close>

definition upload_try ::
  "(upload_result \<Rightarrow> 'p \<Rightarrow> 'p \<times> effect list) \<Rightarrow> upload_result outcome \<Rightarrow>
   uploader_state \<times> 'p \<Rightarrow> unit + (uploader_state \<times> 'p) \<times> effect list" where
  "upload_try onUploadSuccess response s =
     (case response of
        Rejected \<Rightarrow> Inl ()
      | Resolved d \<Rightarrow>
          (case s of (u, p) \<Rightarrow>
             if success d then
               (case onUploadSuccess d p of (p', es) \<Rightarrow>
                  Inr ((u\<lparr>file := None, tags := '''', isPublic := False\<rparr>, p'), es))
             else Inr ((u, p), [])))"

text \<open>Lines 39-67. Without a file the handler returns at once; otherwise \<open>uploading\<close>
  is raised, the request sent, the \<open>try\<close> block run, a thrown error logged and
  alerted, and \<open>uploading\<close> lowered by the \<open>finally\<close> clause.\<close>

definition handleUpload ::
  "(upload_result \<Rightarrow> 'p \<Rightarrow> 'p \<times> effect list) \<Rightarrow> upload_result outcome \<Rightarrow>
   uploader_state \<times> 'p \<Rightarrow> (uploader_state \<times> 'p) \<times> effect list" where
  "handleUpload onUploadSuccess response s =
     (case s of (u, p) \<Rightarrow>
        (case file u of
           None \<Rightarrow> ((u, p), [])
         | Some f \<Rightarrow>
             (let u1 = u\<lparr>uploading := True\<rparr>;
                  sent = [AxiosPost (API @ ''/upload'') (FormData (upload_formData f u))];
                  (s2, es) =
                    (case upload_try onUploadSuccess response (u1, p) of
                       Inr r \<Rightarrow> r
                     | Inl error \<Rightarrow>
                         ((u1, p),
                          [ConsoleError ''Upload failed:'',
                           Alert ''Upload failed. Please try again.'']))
              in (case s2 of (u2, p2) \<Rightarrow> ((u2\<lparr>uploading := False\<rparr>, p2), sent @ es)))))"

subsection \<open>Records received from the backend\<close>

text \<open>A field the component prints either as it is or, when it is an array, joined.\<close>

datatype text_value = Str string | Arr "string list"

text \<open>
  The \<open>ai_analysis\<close> object. A field that is absent is \<open>None\<close>; \<open>extra_keys\<close> are the
  keys of the object that the component never reads (they count for \<open>Object.keys\<close>).
  The source's field \<open>tags\<close> is \<open>analysis_tags\<close> here, since \<open>tags\<close> is the
  uploader's state cell.
\<close>

record analysis =
  ai_model :: "string option"
  classification :: "string option"
  summary :: "string option"
  description :: "string option"
  key_topics :: "text_value option"
  key_subjects :: "text_value option"
  entities :: "text_value option"
  analysis_tags :: "string list option"
  confidence :: "string option"
  extra_keys :: "string list"

record file_record =
  file_id :: string
  original_filename :: string
  file_type :: string
  file_size :: nat
  upload_timestamp :: string
  file_tags :: "string list option"
  ai_analysis :: "analysis option"

text \<open>An entry \<open>{_id, count}\<close> of the two distributions.\<close>

record bucket =
  bucket_id :: string
  count :: nat

record analytics_snapshot =
  total_files :: nat
  ai_analysis_rate :: string
  file_type_distribution :: "bucket list option"
  top_tags :: "bucket list option"

subsection \<open>App (lines 347-486): state and handlers\<close>

datatype tab = TabUpload | TabFiles | TabAnalytics

record app_state =
  files :: "file_record list"
  analytics :: "analytics_snapshot option"
  loading :: bool
  activeTab :: tab

definition App_init :: app_state where
  "App_init = \<lparr>files = [], analytics = None, loading = True, activeTab = TabUpload\<rparr>"

text \<open>Lines 358-367: \<open>try\<close> stores the listing, \<open>catch\<close> logs, \<open>finally\<close> lowers
  \<open>loading\<close>.\<close>

definition loadFiles :: "file_record list outcome \<Rightarrow> app_state \<Rightarrow> app_state \<times> effect list" where
  "loadFiles response a =
     (let sent = [AxiosGet (API @ ''/files'')];
          (a1, es) =
            (case response of
               Resolved d \<Rightarrow> (a\<lparr>files := d\<rparr>, [])
             | Rejected \<Rightarrow> (a, [ConsoleError ''Failed to load files:'']))
      in (a1\<lparr>loading := False\<rparr>, sent @ es))"

text \<open>Lines 369-376.\<close>

definition loadAnalytics ::
  "analytics_snapshot outcome \<Rightarrow> app_state \<Rightarrow> app_state \<times> effect list" where
  "loadAnalytics response a =
     (let sent = [AxiosGet (API @ ''/analytics'')]
      in case response of
           Resolved d \<Rightarrow> (a\<lparr>analytics := Some d\<rparr>, sent)
         | Rejected \<Rightarrow> (a, sent @ [ConsoleError ''Failed to load analytics:'']))"

text \<open>Lines 353-356, the mount effect: both loads. They write different cells, so
  the state after both does not depend on which response arrives first.\<close>

definition App_mount ::
  "file_record list outcome \<Rightarrow> analytics_snapshot outcome \<Rightarrow> app_state \<Rightarrow>
   app_state \<times> effect list" where
  "App_mount fr ar a =
     (case loadFiles fr a of (a1, e1) \<Rightarrow>
        (case loadAnalytics ar a1 of (a2, e2) \<Rightarrow> (a2, e1 @ e2)))"

definition setActiveTab :: "tab \<Rightarrow> app_state \<Rightarrow> app_state" where
  "setActiveTab t a = a\<lparr>activeTab := t\<rparr>"

text \<open>Lines 378-382. \<open>fr\<close> and \<open>ar\<close> are the outcomes of the two requests the
  handler starts; the upload result itself is not read. Neither call is awaited: the
  trace lists each call's request followed by that call's own log line, and the two
  calls and \<open>setActiveTab\<close> write different cells.\<close>

definition handleUploadSuccess ::
  "file_record list outcome \<Rightarrow> analytics_snapshot outcome \<Rightarrow> upload_result \<Rightarrow>
   app_state \<Rightarrow> app_state \<times> effect list" where
  "handleUploadSuccess fr ar uploadResult a =
     (case loadFiles fr a of (a1, e1) \<Rightarrow>
        (case loadAnalytics ar a1 of (a2, e2) \<Rightarrow>
           (setActiveTab TabFiles a2, e1 @ e2)))"

text \<open>Lines 384-391.\<close>

definition handleSearch ::
  "file_record list outcome \<Rightarrow> search_params \<Rightarrow> app_state \<Rightarrow> app_state \<times> effect list" where
  "handleSearch response searchParams a =
     (let sent = [AxiosPost (API @ ''/search'') (Json searchParams)]
      in case response of
           Resolved d \<Rightarrow> (a\<lparr>files := d\<rparr>, sent)
         | Rejected \<Rightarrow> (a, sent @ [ConsoleError ''Search failed:'']))"

text \<open>Lines 393-395.\<close>

definition resetSearch :: "file_record list outcome \<Rightarrow> app_state \<Rightarrow> app_state \<times> effect list" where
  "resetSearch response a = loadFiles response a"

subsection \<open>Two requests in flight\<close>

text \<open>
  The callers of \<open>handleSearch\<close> and \<open>resetSearch\<close> do not await them, and
  nothing orders or cancels requests: when a reset is started before the answer to a
  search has arrived, both requests are in flight and each handler resumes after its
  \<open>await\<close> when its own answer arrives. The two definitions below are the parts of
  \<open>loadFiles\<close> (lines 361-366) and \<open>handleSearch\<close> (lines 387-390) that run then.
\<close>

definition loadFiles_settle ::
  "file_record list outcome \<Rightarrow> app_state \<Rightarrow> app_state \<times> effect list" where
  "loadFiles_settle response a =
     (let (a1, es) =
            (case response of
               Resolved d \<Rightarrow> (a\<lparr>files := d\<rparr>, [])
             | Rejected \<Rightarrow> (a, [ConsoleError ''Failed to load files:'']))
      in (a1\<lparr>loading := False\<rparr>, es))"

definition handleSearch_settle ::
  "file_record list outcome \<Rightarrow> app_state \<Rightarrow> app_state \<times> effect list" where
  "handleSearch_settle response a =
     (case response of
        Resolved d \<Rightarrow> (a\<lparr>files := d\<rparr>, [])
      | Rejected \<Rightarrow> (a, [ConsoleError ''Search failed:'']))"

text \<open>
  When the answer to the search arrives, relative to the reset that follows it: before
  the reset is started; after the reset's request was sent and before its answer; or
  after the reset's answer.
\<close>

datatype arrival = SearchBeforeReset | SearchAnswersFirst | ResetAnswersFirst

text \<open>A search with answer \<open>sr\<close> followed by a reset with answer \<open>rr\<close>, up to the
  point where both handlers have completed.\<close>

definition search_then_reset ::
  "arrival \<Rightarrow> file_record list outcome \<Rightarrow> search_params \<Rightarrow> file_record list outcome \<Rightarrow>
   app_state \<Rightarrow> app_state \<times> effect list" where
  "search_then_reset arr sr q rr a =
     (let sent = [AxiosPost (API @ ''/search'') (Json q), AxiosGet (API @ ''/files'')]
      in case arr of
           SearchBeforeReset \<Rightarrow>
             (case handleSearch sr q a of (a1, e1) \<Rightarrow>
                (case resetSearch rr a1 of (a2, e2) \<Rightarrow> (a2, e1 @ e2)))
         | SearchAnswersFirst \<Rightarrow>
             (case handleSearch_settle sr a of (a1, e1) \<Rightarrow>
                (case loadFiles_settle rr a1 of (a2, e2) \<Rightarrow> (a2, sent @ e1 @ e2)))
         | ResetAnswersFirst \<Rightarrow>
             (case loadFiles_settle rr a of (a1, e1) \<Rightarrow>
                (case handleSearch_settle sr a1 of (a2, e2) \<Rightarrow> (a2, sent @ e1 @ e2))))"

subsection \<open>Mounted components (lines 432-471)\<close>

text \<open>\<open>SearchBar\<close>'s two state cells (lines 262-263).\<close>

record searchbar_state =
  query :: string
  searchTags :: string

definition SearchBar_init :: searchbar_state where
  "SearchBar_init = \<lparr>query = '''', searchTags = ''''\<rparr>"

text \<open>
  The page: \<open>App\<close>'s state and the state of the children that are mounted. \<open>App\<close>
  renders \<open>FileUploader\<close> only under \<open>activeTab === 'upload'\<close> and \<open>SearchBar\<close> only
  under \<open>activeTab === 'files'\<close>. The state cells of a component exist while it is
  mounted: a child that is not rendered has none (\<open>None\<close>), and a child rendered anew
  starts from the arguments of its \<open>useState\<close> calls.
\<close>

record page =
  uploader :: "uploader_state option"
  searchbar :: "searchbar_state option"
  app :: app_state

definition reconcile :: "page \<Rightarrow> page" where
  "reconcile w =
     w\<lparr>uploader :=
         (if activeTab (app w) = TabUpload
          then Some (case uploader w of None \<Rightarrow> FileUploader_init | Some u \<Rightarrow> u)
          else None),
       searchbar :=
         (if activeTab (app w) = TabFiles
          then Some (case searchbar w of None \<Rightarrow> SearchBar_init | Some b \<Rightarrow> b)
          else None)\<rparr>"

definition page_init :: page where
  "page_init = reconcile \<lparr>uploader = None, searchbar = None, app = App_init\<rparr>"

text \<open>Lines 412-429: a click on a navigation button.\<close>

definition click_tab :: "tab \<Rightarrow> page \<Rightarrow> page \<times> effect list" where
  "click_tab t w = (reconcile (w\<lparr>app := setActiveTab t (app w)\<rparr>), [])"

text \<open>Lines 129-135 and 436: a click on the upload button of the mounted uploader,
  whose callback prop is \<open>handleUploadSuccess\<close>.\<close>

definition click_upload ::
  "upload_result outcome \<Rightarrow> file_record list outcome \<Rightarrow> analytics_snapshot outcome \<Rightarrow>
   page \<Rightarrow> page \<times> effect list" where
  "click_upload ur fr ar w =
     (case uploader w of
        None \<Rightarrow> (w, [])
      | Some u \<Rightarrow>
          (case handleUpload (handleUploadSuccess fr ar) ur (u, app w) of
             ((u', a'), es) \<Rightarrow> (reconcile (w\<lparr>uploader := Some u', app := a'\<rparr>), es)))"

subsection \<open>Rendered output\<close>

text \<open>A rendered element: its tag, its \<open>className\<close> and its children. A component
  that returns \<open>null\<close> renders \<open>None\<close>.\<close>

datatype vnode = Text string | Elem string string "vnode list"

text \<open>\<open>{cond && <element/>}\<close>: the element when the condition is truthy, nothing
  otherwise.\<close>

definition when_truthy :: "bool \<Rightarrow> vnode \<Rightarrow> vnode list" where
  "when_truthy b v = (if b then [v] else [])"

text \<open>Truthiness of a field: absent is \<open>undefined\<close>, the empty string is falsy, every
  array is truthy.\<close>

definition truthy_str :: "string option \<Rightarrow> bool" where
  "truthy_str v = (case v of None \<Rightarrow> False | Some s \<Rightarrow> s \<noteq> [])"

definition truthy_text :: "text_value option \<Rightarrow> bool" where
  "truthy_text v =
     (case v of None \<Rightarrow> False | Some (Str s) \<Rightarrow> s \<noteq> [] | Some (Arr xs) \<Rightarrow> True)"

text \<open>\<open>{value}\<close> as a child: \<open>undefined\<close> renders nothing.\<close>

definition str_child :: "string option \<Rightarrow> vnode list" where
  "str_child v = (case v of None \<Rightarrow> [] | Some s \<Rightarrow> [Text s])"

text \<open>\<open>Array.prototype.join\<close>.\<close>

fun join :: "string \<Rightarrow> string list \<Rightarrow> string" where
  "join sep [] = []"
| "join sep [x] = x"
| "join sep (x # y # ys) = x @ sep @ join sep (y # ys)"

text \<open>\<open>Array.isArray(v) ? v.join(', ') : v\<close>.\<close>

definition joined :: "text_value option \<Rightarrow> vnode list" where
  "joined v =
     (case v of None \<Rightarrow> [] | Some (Str s) \<Rightarrow> [Text s] | Some (Arr xs) \<Rightarrow> [Text (join '', '' xs)])"

text \<open>A number as a child: its decimal digits.\<close>

fun show_nat :: "nat \<Rightarrow> string" where
  "show_nat n =
     (if n < 10 then [''0123456789'' ! n]
      else show_nat (n div 10) @ [''0123456789'' ! (n mod 10)])"

text \<open>\<open>Object.keys(analysis)\<close>: the keys that are present.\<close>

definition key_of :: "string \<Rightarrow> 'a option \<Rightarrow> string list" where
  "key_of k v = (case v of None \<Rightarrow> [] | Some x \<Rightarrow> [k])"

definition Object_keys :: "analysis \<Rightarrow> string list" where
  "Object_keys a =
     key_of ''ai_model'' (ai_model a) @ key_of ''classification'' (classification a) @
     key_of ''summary'' (summary a) @ key_of ''description'' (description a) @
     key_of ''key_topics'' (key_topics a) @ key_of ''key_subjects'' (key_subjects a) @
     key_of ''entities'' (entities a) @ key_of ''tags'' (analysis_tags a) @
     key_of ''confidence'' (confidence a) @ extra_keys a"

text \<open>One labelled entry of the card: \<open><strong>label</strong> {value}\<close>.\<close>

definition analysis_item :: "string \<Rightarrow> vnode list \<Rightarrow> vnode" where
  "analysis_item label v =
     Elem ''div'' ''analysis-item'' ([Elem ''strong'' [] [Text label], Text '' ''] @ v)"

text \<open>Lines 143-212. The pictograph of the badge is written as its UTF-8 bytes.\<close>

definition AIAnalysisCard :: "analysis option \<Rightarrow> vnode option" where
  "AIAnalysisCard analysis =
     (case analysis of
        None \<Rightarrow> None
      | Some a \<Rightarrow>
          if length (Object_keys a) = 0 then None
          else Some
            (Elem ''div'' ''ai-analysis-card''
               [Elem ''div'' ''analysis-header''
                  [Elem ''span'' ''ai-badge''
                     [Text ([CHR 0xF0, CHR 0x9F, CHR 0xA4, CHR 0x96] @ '' AI Analysis'')],
                   Elem ''span'' ''model-badge'' (str_child (ai_model a))],
                Elem ''div'' ''analysis-content''
                  (when_truthy (truthy_str (classification a))
                     (analysis_item ''Classification:'' (str_child (classification a))) @
                   when_truthy (truthy_str (summary a))
                     (analysis_item ''Summary:'' (str_child (summary a))) @
                   when_truthy (truthy_str (description a))
                     (analysis_item ''Description:'' (str_child (description a))) @
                   when_truthy (truthy_text (key_topics a))
                     (analysis_item ''Key Topics:'' (joined (key_topics a))) @
                   when_truthy (truthy_text (key_subjects a))
                     (analysis_item ''Key Subjects:'' (joined (key_subjects a))) @
                   when_truthy (truthy_text (entities a))
                     (analysis_item ''Entities:'' (joined (entities a))) @
                   (case analysis_tags a of
                      None \<Rightarrow> []
                    | Some ts \<Rightarrow>
                        when_truthy (length ts > 0)
                          (Elem ''div'' ''analysis-item''
                             [Elem ''strong'' [] [Text ''AI Tags:''],
                              Elem ''div'' ''tags-container''
                                (map (\<lambda>tag. Elem ''span'' ''tag'' [Text tag]) ts)])) @
                   (case confidence a of
                      None \<Rightarrow> []
                    | Some c \<Rightarrow>
                        when_truthy (c \<noteq> [])
                          (Elem ''div'' ''analysis-item''
                             [Elem ''strong'' [] [Text ''Confidence:''],
                              Elem ''span'' (''confidence '' @ c) [Text c]])))]))"

text \<open>Lines 320-325 and 333-337: one row of each distribution.\<close>

definition type_stat :: "bucket \<Rightarrow> vnode" where
  "type_stat type =
     Elem ''div'' ''type-stat''
       [Elem ''span'' [] [Text (bucket_id type)], Elem ''span'' [] [Text (show_nat (count type))]]"

definition popular_tag :: "bucket \<Rightarrow> vnode" where
  "popular_tag tag =
     Elem ''span'' ''popular-tag''
       [Text (bucket_id tag), Text '' ('', Text (show_nat (count tag)), Text '')'']"

text \<open>Lines 300-344. \<open>slice(0, n)\<close> of an array is its first \<open>n\<close> entries.\<close>

definition Analytics :: "analytics_snapshot option \<Rightarrow> vnode option" where
  "Analytics snapshot =
     (case snapshot of
        None \<Rightarrow> None
      | Some a \<Rightarrow>
          Some
            (Elem ''div'' ''analytics-section''
               [Elem ''h2'' []
                  [Text ([CHR 0xF0, CHR 0x9F, CHR 0x93, CHR 0x8A] @ '' Platform Analytics'')],
                Elem ''div'' ''analytics-grid''
                  ([Elem ''div'' ''stat-card''
                      [Elem ''div'' ''stat-number'' [Text (show_nat (total_files a))],
                       Elem ''div'' ''stat-label'' [Text ''Total Files'']],
                    Elem ''div'' ''stat-card''
                      [Elem ''div'' ''stat-number'' [Text (ai_analysis_rate a)],
                       Elem ''div'' ''stat-label'' [Text ''AI Analysis Rate'']]] @
                   (case file_type_distribution a of
                      None \<Rightarrow> []
                    | Some dist \<Rightarrow>
                        when_truthy (length dist > 0)
                          (Elem ''div'' ''file-types-card''
                             (Elem ''h3'' [] [Text ''File Types''] #
                              map type_stat (take 5 dist)))) @
                   (case top_tags a of
                      None \<Rightarrow> []
                    | Some tgs \<Rightarrow>
                        when_truthy (length tgs > 0)
                          (Elem ''div'' ''top-tags-card''
                             [Elem ''h3'' [] [Text ''Popular Tags''],
                              Elem ''div'' ''popular-tags''
                                (map popular_tag (take 10 tgs))])))]))"

text \<open>What a test of the rendered output looks for: the elements of a given class,
  in document order.\<close>

fun elems_with_class :: "string \<Rightarrow> vnode \<Rightarrow> vnode list" where
  "elems_with_class c (Text s) = []"
| "elems_with_class c (Elem t cls kids) =
     (if cls = c then [Elem t cls kids] else []) @ concat (map (elems_with_class c) kids)"

definition rendered :: "string \<Rightarrow> vnode option \<Rightarrow> vnode list" where
  "rendered c v = (case v of None \<Rightarrow> [] | Some n \<Rightarrow> elems_with_class c n)"

text \<open>The entries of a distribution that may be absent.\<close>

definition entries :: "'a list option \<Rightarrow> 'a list" where
  "entries v = (case v of None \<Rightarrow> [] | Some xs \<Rightarrow> xs)"

text \<open>The effects of one kind in a trace.\<close>

definition gets :: "string \<Rightarrow> effect list \<Rightarrow> nat" where
  "gets path es = length (filter (\<lambda>e. e = AxiosGet path) es)"

definition alerts :: "effect list \<Rightarrow> string list" where
  "alerts es = concat (map (\<lambda>e. case e of Alert m \<Rightarrow> [m] | _ \<Rightarrow> []) es)"

definition requests :: "effect list \<Rightarrow> effect list" where
  "requests es =
     filter (\<lambda>e. case e of AxiosGet p \<Rightarrow> True | AxiosPost p b \<Rightarrow> True | _ \<Rightarrow> False) es"

subsection \<open>Sample inputs\<close>

text \<open>A 2 MB file with tags and the public flag set, selected in the uploader.\<close>

definition sample_upload :: file_ref where
  "sample_upload = \<lparr>name = ''report.pdf'', size = 2097152\<rparr>"

definition sample_uploader :: uploader_state where
  "sample_uploader =
     setIsPublic True
       (setTags ''work, urgent'' (handleFileSelect (Some sample_upload) FileUploader_init))"

definition sample_result :: upload_result where
  "sample_result = \<lparr>success = True, result_id = ''abc''\<rparr>"

definition sample_record :: "string \<Rightarrow> file_record" where
  "sample_record n =
     \<lparr>file_id = n, original_filename = n @ ''.pdf'', file_type = ''application/pdf'',
      file_size = 1024, upload_timestamp = ''2025-01-01T00:00:00'', file_tags = None,
      ai_analysis = None\<rparr>"

text \<open>The page right after the sample file was selected on the Upload tab.\<close>

definition sample_page :: page where
  "sample_page = page_init\<lparr>uploader := Some sample_uploader\<rparr>"

text \<open>A snapshot with 8 file types and 15 tags.\<close>

definition sample_bucket :: "string \<Rightarrow> nat \<Rightarrow> bucket" where
  "sample_bucket i n = \<lparr>bucket_id = i, count = n\<rparr>"

definition sample_snapshot :: analytics_snapshot where
  "sample_snapshot =
     \<lparr>total_files = 40, ai_analysis_rate = ''85%'',
      file_type_distribution = Some
        [sample_bucket ''application/pdf'' 12, sample_bucket ''image/png'' 9,
         sample_bucket ''image/jpeg'' 7, sample_bucket ''text/plain'' 5,
         sample_bucket ''video/mp4'' 3, sample_bucket ''audio/mpeg'' 2,
         sample_bucket ''text/csv'' 1, sample_bucket ''application/zip'' 1],
      top_tags = Some
        [sample_bucket ''work'' 15, sample_bucket ''urgent'' 14, sample_bucket ''invoice'' 13,
         sample_bucket ''photo'' 12, sample_bucket ''draft'' 11, sample_bucket ''final'' 10,
         sample_bucket ''2024'' 9, sample_bucket ''2025'' 8, sample_bucket ''tax'' 7,
         sample_bucket ''legal'' 6, sample_bucket ''notes'' 5, sample_bucket ''scan'' 4,
         sample_bucket ''family'' 3, sample_bucket ''travel'' 2, sample_bucket ''misc'' 1]\<rparr>"

section \<open>Properties\<close>

subsection \<open>The four ways \<open>handleUpload\<close> ends\<close>

lemma sample_uploader_file: "file sample_uploader = Some sample_upload"
  by (simp add: sample_uploader_def setIsPublic_def setTags_def handleFileSelect_def)

lemma sample_uploader_idle: "sample_uploader\<lparr>uploading := False\<rparr> = sample_uploader"
  by (simp add: sample_uploader_def setIsPublic_def setTags_def handleFileSelect_def
      FileUploader_init_def)

lemma upload_no_file:
  "file u = None \<Longrightarrow> handleUpload cb r (u, p) = ((u, p), [])"
  by (simp add: handleUpload_def)

lemma upload_rejected:
  "file u = Some f \<Longrightarrow>
   handleUpload cb Rejected (u, p) =
     ((u\<lparr>uploading := False\<rparr>, p),
      [AxiosPost (API @ ''/upload'') (FormData (upload_formData f u)),
       ConsoleError ''Upload failed:'', Alert ''Upload failed. Please try again.''])"
  by (simp add: handleUpload_def upload_try_def)

lemma upload_refused:
  "file u = Some f \<Longrightarrow> \<not> success d \<Longrightarrow>
   handleUpload cb (Resolved d) (u, p) =
     ((u\<lparr>uploading := False\<rparr>, p),
      [AxiosPost (API @ ''/upload'') (FormData (upload_formData f u))])"
  by (simp add: handleUpload_def upload_try_def)

lemma upload_accepted:
  "file u = Some f \<Longrightarrow> success d \<Longrightarrow> cb d p = (p', es) \<Longrightarrow>
   handleUpload cb (Resolved d) (u, p) =
     ((u\<lparr>file := None, tags := '''', isPublic := False, uploading := False\<rparr>, p'),
      AxiosPost (API @ ''/upload'') (FormData (upload_formData f u)) # es)"
  by (simp add: handleUpload_def upload_try_def)

subsection \<open>Failed uploads\<close>

text \<open>
  C1. The claim asks that a response reporting \<open>success = false\<close> be handled as a
  rejected request is: a failure notice shown to the user, the selected file and its
  metadata kept. On the sample upload the handler keeps the selection on both paths,
  but the notice is raised on the rejected path only: for the response with
  \<open>success = false\<close> the upload request is the whole trace, with no alert and no log
  line, and the state is what it was.
\<close>

theorem refused_upload_raises_no_alert:
  "handleUpload (handleUploadSuccess Rejected Rejected)
      (Resolved \<lparr>success = False, result_id = ''''\<rparr>) (sample_uploader, App_init) =
     ((sample_uploader, App_init),
      [AxiosPost (API @ ''/upload'')
         (FormData (upload_formData sample_upload sample_uploader))]) \<and>
   alerts (snd (handleUpload (handleUploadSuccess Rejected Rejected)
      (Resolved \<lparr>success = False, result_id = ''''\<rparr>) (sample_uploader, App_init))) = [] \<and>
   handleUpload (handleUploadSuccess Rejected Rejected) Rejected (sample_uploader, App_init) =
     ((sample_uploader, App_init),
      [AxiosPost (API @ ''/upload'')
         (FormData (upload_formData sample_upload sample_uploader)),
       ConsoleError ''Upload failed:'', Alert ''Upload failed. Please try again.'']) \<and>
   alerts (snd (handleUpload (handleUploadSuccess Rejected Rejected) Rejected
      (sample_uploader, App_init))) = [''Upload failed. Please try again.'']"
  by (simp add: upload_rejected [OF sample_uploader_file]
      upload_refused [OF sample_uploader_file] alerts_def sample_uploader_idle)

text \<open>
  C3. After a rejected upload request the selected file and the tags (and the
  visibility flag) of the uploader are what they were before the attempt.
\<close>

theorem upload_rejected_keeps_file_and_tags:
  "file (fst (fst (handleUpload cb Rejected (u, p)))) = file u \<and>
   tags (fst (fst (handleUpload cb Rejected (u, p)))) = tags u \<and>
   isPublic (fst (fst (handleUpload cb Rejected (u, p)))) = isPublic u"
  by (cases "file u") (simp_all add: upload_rejected upload_no_file)

theorem upload_rejected_keeps_file_and_tags_witness:
  "file (fst (fst (handleUpload (handleUploadSuccess Rejected Rejected) Rejected
      (sample_uploader, App_init)))) = Some sample_upload \<and>
   tags (fst (fst (handleUpload (handleUploadSuccess Rejected Rejected) Rejected
      (sample_uploader, App_init)))) = ''work, urgent''"
  using upload_rejected_keeps_file_and_tags
      [of "handleUploadSuccess Rejected Rejected" sample_uploader App_init]
  by (simp add: sample_uploader_def setIsPublic_def setTags_def handleFileSelect_def)

subsection \<open>Upload without a file\<close>

text \<open>
  C6. When no file is selected, \<open>handleUpload\<close> returns at once: the uploader's and
  the parent's state are unchanged and the trace of effects is empty, so no request is
  sent, nothing is logged and no alert is shown.
\<close>

theorem upload_without_file_is_noop:
  "file u = None \<Longrightarrow> handleUpload cb response (u, p) = ((u, p), [])"
  by (simp add: handleUpload_def)

theorem upload_without_file_is_noop_witness:
  "file FileUploader_init = None \<and>
   handleUpload (handleUploadSuccess (Resolved []) Rejected) (Resolved sample_result)
     (FileUploader_init, App_init) = ((FileUploader_init, App_init), [])"
proof -
  have h: "file FileUploader_init = None"
    by (simp add: FileUploader_init_def)
  show ?thesis
    using h upload_without_file_is_noop [OF h] by simp
qed

subsection \<open>The uploading flag\<close>

text \<open>
  C10. Whenever \<open>handleUpload\<close> runs with a file selected, whatever the outcome of
  the request (rejected, \<open>success = false\<close> or \<open>success = true\<close>), the \<open>uploading\<close>
  flag is false when the handler has completed.
\<close>

theorem uploading_lowered_after_upload:
  "file u \<noteq> None \<Longrightarrow> \<not> uploading (fst (fst (handleUpload cb response (u, p))))"
proof -
  assume "file u \<noteq> None"
  then obtain f where f: "file u = Some f" by auto
  show ?thesis
  proof (cases response)
    case Rejected
    then show ?thesis by (simp add: upload_rejected [OF f])
  next
    case (Resolved d)
    show ?thesis
    proof (cases "success d")
      case True
      obtain p' es where "cb d p = (p', es)" by (cases "cb d p")
      with f True have "handleUpload cb (Resolved d) (u, p) =
          ((u\<lparr>file := None, tags := [], isPublic := False, uploading := False\<rparr>, p'),
           AxiosPost (API @ ''/upload'') (FormData (upload_formData f u)) # es)"
        by (rule upload_accepted)
      with Resolved show ?thesis by simp
    next
      case False
      with Resolved show ?thesis by (simp add: upload_refused [OF f])
    qed
  qed
qed

theorem uploading_lowered_after_upload_witness:
  "file sample_uploader \<noteq> None \<and>
   \<not> uploading (fst (fst (handleUpload (handleUploadSuccess (Resolved []) Rejected)
        (Resolved sample_result) (sample_uploader, App_init)))) \<and>
   \<not> uploading (fst (fst (handleUpload (handleUploadSuccess (Resolved []) Rejected)
        (Resolved (sample_result\<lparr>success := False\<rparr>)) (sample_uploader, App_init)))) \<and>
   \<not> uploading (fst (fst (handleUpload (handleUploadSuccess (Resolved []) Rejected)
        Rejected (sample_uploader, App_init))))"
proof -
  have h: "file sample_uploader \<noteq> None"
    by (simp add: sample_uploader_file)
  note low = uploading_lowered_after_upload
    [OF h, where cb = "handleUploadSuccess (Resolved []) Rejected" and p = App_init]
  show ?thesis
    using h low [of "Resolved sample_result"]
      low [of "Resolved (sample_result\<lparr>success := False\<rparr>)"] low [of Rejected]
    by simp
qed

subsection \<open>Successful uploads\<close>

lemma handleUploadSuccess_eq:
  "handleUploadSuccess fr ar d a =
     (setActiveTab TabFiles (fst (loadAnalytics ar (fst (loadFiles fr a)))),
      snd (loadFiles fr a) @ snd (loadAnalytics ar (fst (loadFiles fr a))))"
  by (simp add: handleUploadSuccess_def split: prod.splits)

lemma activeTab_handleUploadSuccess:
  "activeTab (fst (handleUploadSuccess fr ar d a)) = TabFiles"
  by (simp add: handleUploadSuccess_eq setActiveTab_def)

lemma gets_loadFiles:
  "gets p (snd (loadFiles fr a)) = (if p = API @ ''/files'' then 1 else 0)"
  by (cases fr) (auto simp add: loadFiles_def gets_def)

lemma gets_loadAnalytics:
  "gets p (snd (loadAnalytics ar a)) = (if p = API @ ''/analytics'' then 1 else 0)"
  by (cases ar) (auto simp add: loadAnalytics_def gets_def)

lemma gets_append: "gets p (xs @ ys) = gets p xs + gets p ys"
  by (simp add: gets_def)

lemma gets_post: "gets p (AxiosPost q b # xs) = gets p xs"
  by (simp add: gets_def)

text \<open>
  C2. When \<open>handleUpload\<close> runs with a file selected, with \<open>handleUploadSuccess\<close> as
  its callback, and the response reports \<open>success = true\<close>: the selected file, the
  tags and the visibility flag are back at their initial values (no file, the empty
  string, not public) and \<open>uploading\<close> is false; the active tab is Files; and the
  trace holds exactly one \<open>GET /api/files\<close> and exactly one \<open>GET /api/analytics\<close>,
  the single request each call of \<open>loadFiles\<close> and \<open>loadAnalytics\<close> sends, whatever
  the outcomes of those two requests.
\<close>

theorem upload_success_clears_and_reloads:
  assumes "file u = Some f" and "success d"
  shows "fst (fst (handleUpload (handleUploadSuccess fr ar) (Resolved d) (u, a))) =
           u\<lparr>file := None, tags := '''', isPublic := False, uploading := False\<rparr> \<and>
         activeTab (snd (fst (handleUpload (handleUploadSuccess fr ar) (Resolved d) (u, a)))) =
           TabFiles \<and>
         gets (API @ ''/files'')
           (snd (handleUpload (handleUploadSuccess fr ar) (Resolved d) (u, a))) = 1 \<and>
         gets (API @ ''/analytics'')
           (snd (handleUpload (handleUploadSuccess fr ar) (Resolved d) (u, a))) = 1"
proof -
  obtain a' es where cb: "handleUploadSuccess fr ar d a = (a', es)"
    by (cases "handleUploadSuccess fr ar d a")
  have tab: "activeTab a' = TabFiles"
    using activeTab_handleUploadSuccess [of fr ar d a] cb by simp
  have es: "es = snd (loadFiles fr a) @ snd (loadAnalytics ar (fst (loadFiles fr a)))"
    using handleUploadSuccess_eq [of fr ar d a] cb by simp
  have n1: "gets (API @ ''/files'') es = 1"
    by (simp add: es gets_append gets_loadFiles gets_loadAnalytics API_def)
  have n2: "gets (API @ ''/analytics'') es = 1"
    by (simp add: es gets_append gets_loadFiles gets_loadAnalytics API_def)
  have "handleUpload (handleUploadSuccess fr ar) (Resolved d) (u, a) =
          ((u\<lparr>file := None, tags := [], isPublic := False, uploading := False\<rparr>, a'),
           AxiosPost (API @ ''/upload'') (FormData (upload_formData f u)) # es)"
    using assms cb by (rule upload_accepted)
  then show ?thesis
    by (simp add: tab n1 n2 gets_post)
qed

theorem upload_success_clears_and_reloads_witness:
  "file sample_uploader = Some sample_upload \<and> success sample_result \<and>
   fst (fst (handleUpload (handleUploadSuccess (Resolved [sample_record ''abc'']) Rejected)
     (Resolved sample_result) (sample_uploader, App_init))) = FileUploader_init \<and>
   activeTab (snd (fst (handleUpload
     (handleUploadSuccess (Resolved [sample_record ''abc'']) Rejected)
     (Resolved sample_result) (sample_uploader, App_init)))) = TabFiles \<and>
   gets (API @ ''/files'') (snd (handleUpload
     (handleUploadSuccess (Resolved [sample_record ''abc'']) Rejected)
     (Resolved sample_result) (sample_uploader, App_init))) = 1 \<and>
   gets (API @ ''/analytics'') (snd (handleUpload
     (handleUploadSuccess (Resolved [sample_record ''abc'']) Rejected)
     (Resolved sample_result) (sample_uploader, App_init))) = 1"
proof -
  have h1: "file sample_uploader = Some sample_upload"
    by (rule sample_uploader_file)
  have h2: "success sample_result"
    by (simp add: sample_result_def)
  have cleared:
    "sample_uploader\<lparr>file := None, tags := [], isPublic := False, uploading := False\<rparr> =
       FileUploader_init"
    by (simp add: sample_uploader_def setIsPublic_def setTags_def handleFileSelect_def
        FileUploader_init_def)
  show ?thesis
    using h1 h2 upload_success_clears_and_reloads
      [OF h1 h2, of "Resolved [sample_record ''abc'']" Rejected App_init]
    by (simp add: cleared)
qed

subsection \<open>Failed fetches of the listing and of the snapshot\<close>

text \<open>
  C4. When the request of \<open>loadFiles\<close>, of \<open>handleSearch\<close> or of \<open>loadAnalytics\<close> is
  rejected, the handler completes: the file collection and the analytics snapshot are
  the ones held before (\<open>loadFiles\<close> also lowers \<open>loading\<close>, nothing else changes),
  and besides the request the only effect is one \<open>console.error\<close> line; no alert is
  shown.
\<close>

theorem failed_fetch_keeps_state:
  "loadFiles Rejected a =
     (a\<lparr>loading := False\<rparr>,
      [AxiosGet (API @ ''/files''), ConsoleError ''Failed to load files:'']) \<and>
   handleSearch Rejected q a =
     (a, [AxiosPost (API @ ''/search'') (Json q), ConsoleError ''Search failed:'']) \<and>
   loadAnalytics Rejected a =
     (a, [AxiosGet (API @ ''/analytics''), ConsoleError ''Failed to load analytics:'']) \<and>
   files (fst (loadFiles Rejected a)) = files a \<and>
   analytics (fst (loadFiles Rejected a)) = analytics a \<and>
   alerts (snd (loadFiles Rejected a)) = [] \<and>
   alerts (snd (handleSearch Rejected q a)) = [] \<and>
   alerts (snd (loadAnalytics Rejected a)) = []"
  by (simp add: loadFiles_def handleSearch_def loadAnalytics_def alerts_def)

theorem failed_fetch_keeps_state_witness:
  "files (fst (loadFiles Rejected
      (fst (loadFiles (Resolved [sample_record ''a'', sample_record ''b'']) App_init)))) =
     [sample_record ''a'', sample_record ''b''] \<and>
   files (fst (handleSearch Rejected (SearchParams ''invoice'' None)
      (fst (loadFiles (Resolved [sample_record ''a'', sample_record ''b'']) App_init)))) =
     [sample_record ''a'', sample_record ''b''] \<and>
   analytics (fst (loadAnalytics Rejected
      (fst (loadAnalytics (Resolved sample_snapshot) App_init)))) = Some sample_snapshot"
  using failed_fetch_keeps_state
      [of "fst (loadFiles (Resolved [sample_record ''a'', sample_record ''b'']) App_init)"
        "SearchParams ''invoice'' None"]
    failed_fetch_keeps_state
      [of "fst (loadAnalytics (Resolved sample_snapshot) App_init)"
        "SearchParams ''invoice'' None"]
  by (simp add: loadFiles_def loadAnalytics_def)

subsection \<open>Search and reset\<close>

lemma loadFiles_settled:
  "loadFiles r a =
     (fst (loadFiles_settle r a), AxiosGet (API @ ''/files'') # snd (loadFiles_settle r a))"
  by (cases r) (simp_all add: loadFiles_def loadFiles_settle_def)

lemma handleSearch_settled:
  "handleSearch r q a =
     (fst (handleSearch_settle r a),
      AxiosPost (API @ ''/search'') (Json q) # snd (handleSearch_settle r a))"
  by (cases r) (simp_all add: handleSearch_def handleSearch_settle_def)

lemma files_loadFiles_settle:
  "files (fst (loadFiles_settle (Resolved l) a)) = l"
  "files (fst (loadFiles_settle Rejected a)) = files a"
  by (simp_all add: loadFiles_settle_def)

lemma files_handleSearch_settle:
  "files (fst (handleSearch_settle (Resolved l) a)) = l"
  "files (fst (handleSearch_settle Rejected a)) = files a"
  by (simp_all add: handleSearch_settle_def)

lemma files_search_then_reset:
  "files (fst (search_then_reset SearchBeforeReset sr q rr a)) =
     files (fst (loadFiles_settle rr (fst (handleSearch_settle sr a))))"
  "files (fst (search_then_reset SearchAnswersFirst sr q rr a)) =
     files (fst (loadFiles_settle rr (fst (handleSearch_settle sr a))))"
  "files (fst (search_then_reset ResetAnswersFirst sr q rr a)) =
     files (fst (handleSearch_settle sr (fst (loadFiles_settle rr a))))"
  by (simp_all add: search_then_reset_def resetSearch_def loadFiles_settled
      handleSearch_settled split: prod.splits)

text \<open>
  C5, as the code has it. \<open>resetSearch\<close> is \<open>loadFiles\<close>: it fetches the listing
  again and holds no copy of an earlier one. After a search followed immediately by a
  reset, when both handlers have completed, the collection is what the last answer
  that resolved carried. It is the listing the reset received when that request
  resolves and the answer to the search does not arrive after it (or the search is
  rejected); then, if the reset received the listing the most recent \<open>loadFiles\<close>
  received, the state is the one that \<open>loadFiles\<close> produced. It is the search result
  when the search resolves and its answer arrives last, or when the reset's request
  is rejected. It is the collection held before when both requests are rejected.
\<close>

theorem search_then_reset_shows_last_answer:
  "resetSearch r a = loadFiles r a \<and>
   files (fst (search_then_reset SearchBeforeReset sr q (Resolved l) a)) = l \<and>
   files (fst (search_then_reset SearchAnswersFirst sr q (Resolved l) a)) = l \<and>
   files (fst (search_then_reset ResetAnswersFirst Rejected q (Resolved l) a)) = l \<and>
   fst (search_then_reset SearchBeforeReset sr q (Resolved l) (fst (loadFiles (Resolved l) a))) =
     fst (loadFiles (Resolved l) a) \<and>
   fst (search_then_reset SearchAnswersFirst sr q (Resolved l) (fst (loadFiles (Resolved l) a))) =
     fst (loadFiles (Resolved l) a) \<and>
   fst (search_then_reset ResetAnswersFirst Rejected q (Resolved l)
          (fst (loadFiles (Resolved l) a))) =
     fst (loadFiles (Resolved l) a) \<and>
   files (fst (search_then_reset ResetAnswersFirst (Resolved s) q rr a)) = s \<and>
   files (fst (search_then_reset arr (Resolved s) q Rejected a)) = s \<and>
   files (fst (search_then_reset arr Rejected q Rejected a)) = files a"
proof -
  have reset: "resetSearch r a = loadFiles r a"
    by (simp add: resetSearch_def)
  have listing:
    "files (fst (search_then_reset SearchBeforeReset sr q (Resolved l) a)) = l"
    "files (fst (search_then_reset SearchAnswersFirst sr q (Resolved l) a)) = l"
    "files (fst (search_then_reset ResetAnswersFirst Rejected q (Resolved l) a)) = l"
    by (simp_all add: files_search_then_reset files_loadFiles_settle files_handleSearch_settle)
  have restored:
    "fst (search_then_reset SearchBeforeReset sr q (Resolved l)
            (fst (loadFiles (Resolved l) a))) = fst (loadFiles (Resolved l) a)"
    "fst (search_then_reset SearchAnswersFirst sr q (Resolved l)
            (fst (loadFiles (Resolved l) a))) = fst (loadFiles (Resolved l) a)"
    "fst (search_then_reset ResetAnswersFirst Rejected q (Resolved l)
            (fst (loadFiles (Resolved l) a))) = fst (loadFiles (Resolved l) a)"
    by (cases sr; simp add: search_then_reset_def resetSearch_def loadFiles_def
        handleSearch_def loadFiles_settle_def handleSearch_settle_def)+
  have late: "files (fst (search_then_reset ResetAnswersFirst (Resolved s) q rr a)) = s"
    by (simp add: files_search_then_reset files_handleSearch_settle)
  have failed:
    "files (fst (search_then_reset arr (Resolved s) q Rejected a)) = s"
    "files (fst (search_then_reset arr Rejected q Rejected a)) = files a"
    by (cases arr; simp add: files_search_then_reset files_loadFiles_settle
        files_handleSearch_settle)+
  from reset listing restored late failed show ?thesis
    by simp
qed

theorem search_then_reset_shows_last_answer_witness:
  "files (fst (search_then_reset SearchBeforeReset (Resolved [sample_record ''invoice''])
     (SearchParams ''invoice'' None) (Resolved [sample_record ''a'', sample_record ''invoice''])
     (fst (loadFiles (Resolved [sample_record ''a'', sample_record ''invoice'']) App_init)))) =
     [sample_record ''a'', sample_record ''invoice''] \<and>
   files (fst (search_then_reset SearchAnswersFirst (Resolved [sample_record ''invoice''])
     (SearchParams ''invoice'' None) (Resolved [sample_record ''a'', sample_record ''invoice''])
     (fst (loadFiles (Resolved [sample_record ''a'', sample_record ''invoice'']) App_init)))) =
     [sample_record ''a'', sample_record ''invoice''] \<and>
   files (fst (search_then_reset ResetAnswersFirst (Resolved [sample_record ''invoice''])
     (SearchParams ''invoice'' None) (Resolved [sample_record ''a'', sample_record ''invoice''])
     (fst (loadFiles (Resolved [sample_record ''a'', sample_record ''invoice'']) App_init)))) =
     [sample_record ''invoice'']"
  using search_then_reset_shows_last_answer
      [where l = "[sample_record ''a'', sample_record ''invoice'']"
         and sr = "Resolved [sample_record ''invoice'']"
         and s = "[sample_record ''invoice'']"
         and rr = "Resolved [sample_record ''a'', sample_record ''invoice'']"
         and q = "SearchParams ''invoice'' None"
         and a = "fst (loadFiles (Resolved [sample_record ''a'', sample_record ''invoice''])
                    App_init)"]
  by simp

text \<open>
  The claim as written promises the listing of the most recent \<open>loadFiles\<close> for
  every state. Here \<open>loadFiles\<close> received two records, the search for \<open>invoice\<close>
  one, and the reset's request was rejected: the collection is the search result.
\<close>

theorem reset_after_failed_fetch_keeps_search:
  "files (fst (loadFiles (Resolved [sample_record ''a'', sample_record ''invoice''])
      App_init)) = [sample_record ''a'', sample_record ''invoice''] \<and>
   files (fst (resetSearch Rejected
     (fst (handleSearch (Resolved [sample_record ''invoice'']) (SearchParams ''invoice'' None)
       (fst (loadFiles (Resolved [sample_record ''a'', sample_record ''invoice''])
          App_init)))))) = [sample_record ''invoice'']"
  by (simp add: resetSearch_def loadFiles_def handleSearch_def)

subsection \<open>The analytics view\<close>

lemma type_stat_rows:
  "elems_with_class ''type-stat'' (type_stat b) = [type_stat b]"
  "elems_with_class ''popular-tag'' (type_stat b) = []"
  by (simp_all add: type_stat_def)

lemma popular_tag_rows:
  "elems_with_class ''popular-tag'' (popular_tag b) = [popular_tag b]"
  "elems_with_class ''type-stat'' (popular_tag b) = []"
  by (simp_all add: popular_tag_def)

lemma concat_type_stat:
  "concat (map (elems_with_class ''type-stat'' \<circ> type_stat) xs) = map type_stat xs"
  by (induction xs) (simp_all add: type_stat_rows)

lemma concat_type_stat_other:
  "concat (map (elems_with_class ''popular-tag'' \<circ> type_stat) xs) = []"
  by (induction xs) (simp_all add: type_stat_rows)

lemma concat_popular_tag:
  "concat (map (elems_with_class ''popular-tag'' \<circ> popular_tag) xs) = map popular_tag xs"
  by (induction xs) (simp_all add: popular_tag_rows)

lemma concat_popular_tag_other:
  "concat (map (elems_with_class ''type-stat'' \<circ> popular_tag) xs) = []"
  by (induction xs) (simp_all add: popular_tag_rows)

lemma types_card_rows:
  "concat (map (elems_with_class ''type-stat'')
     (case d of
        None \<Rightarrow> []
      | Some dist \<Rightarrow>
          when_truthy (length dist > 0)
            (Elem ''div'' ''file-types-card''
               (Elem ''h3'' [] [Text ''File Types''] # map type_stat (take 5 dist))))) =
   map type_stat (take 5 (entries d))"
  by (cases d) (simp_all add: when_truthy_def entries_def concat_type_stat)

lemma types_card_no_tags:
  "concat (map (elems_with_class ''popular-tag'')
     (case d of
        None \<Rightarrow> []
      | Some dist \<Rightarrow>
          when_truthy (length dist > 0)
            (Elem ''div'' ''file-types-card''
               (Elem ''h3'' [] [Text ''File Types''] # map type_stat (take 5 dist))))) = []"
  by (cases d) (simp_all add: when_truthy_def concat_type_stat_other)

lemma tags_card_rows:
  "concat (map (elems_with_class ''popular-tag'')
     (case d of
        None \<Rightarrow> []
      | Some tgs \<Rightarrow>
          when_truthy (length tgs > 0)
            (Elem ''div'' ''top-tags-card''
               [Elem ''h3'' [] [Text ''Popular Tags''],
                Elem ''div'' ''popular-tags'' (map popular_tag (take 10 tgs))]))) =
   map popular_tag (take 10 (entries d))"
  by (cases d) (simp_all add: when_truthy_def entries_def concat_popular_tag)

lemma tags_card_no_types:
  "concat (map (elems_with_class ''type-stat'')
     (case d of
        None \<Rightarrow> []
      | Some tgs \<Rightarrow>
          when_truthy (length tgs > 0)
            (Elem ''div'' ''top-tags-card''
               [Elem ''h3'' [] [Text ''Popular Tags''],
                Elem ''div'' ''popular-tags'' (map popular_tag (take 10 tgs))]))) = []"
  by (cases d) (simp_all add: when_truthy_def concat_popular_tag_other)

lemma rendered_type_stat:
  "rendered ''type-stat'' (Analytics (Some a)) =
     map type_stat (take 5 (entries (file_type_distribution a)))"
  by (simp add: rendered_def Analytics_def types_card_rows tags_card_no_types)

lemma rendered_popular_tag:
  "rendered ''popular-tag'' (Analytics (Some a)) =
     map popular_tag (take 10 (entries (top_tags a)))"
  by (simp add: rendered_def Analytics_def tags_card_rows types_card_no_tags)

text \<open>
  C7. For every snapshot, the \<open>type-stat\<close> rows of the rendered view are the rows of
  the first 5 entries of \<open>file_type_distribution\<close>, in order, and its \<open>popular-tag\<close>
  entries are those of the first 10 entries of \<open>top_tags\<close>: the view shows
  \<open>min 5 n\<close> file types and \<open>min 10 m\<close> tags for distributions of lengths \<open>n\<close> and
  \<open>m\<close> (5 for length 8, 10 for length 15).
\<close>

theorem analytics_rows_truncated:
  "rendered ''type-stat'' (Analytics (Some a)) =
     map type_stat (take 5 (entries (file_type_distribution a))) \<and>
   rendered ''popular-tag'' (Analytics (Some a)) =
     map popular_tag (take 10 (entries (top_tags a))) \<and>
   length (rendered ''type-stat'' (Analytics (Some a))) =
     min 5 (length (entries (file_type_distribution a))) \<and>
   length (rendered ''popular-tag'' (Analytics (Some a))) =
     min 10 (length (entries (top_tags a)))"
  by (simp add: rendered_type_stat rendered_popular_tag min.commute)

theorem analytics_rows_truncated_witness:
  "length (entries (file_type_distribution sample_snapshot)) = 8 \<and>
   length (entries (top_tags sample_snapshot)) = 15 \<and>
   length (rendered ''type-stat'' (Analytics (Some sample_snapshot))) = 5 \<and>
   length (rendered ''popular-tag'' (Analytics (Some sample_snapshot))) = 10 \<and>
   rendered ''type-stat'' (Analytics (Some sample_snapshot)) =
     map type_stat
       [sample_bucket ''application/pdf'' 12, sample_bucket ''image/png'' 9,
        sample_bucket ''image/jpeg'' 7, sample_bucket ''text/plain'' 5,
        sample_bucket ''video/mp4'' 3]"
  using analytics_rows_truncated [of sample_snapshot]
  by (simp add: sample_snapshot_def entries_def)

subsection \<open>The analysis card\<close>

text \<open>
  C8. \<open>FileCard\<close> hands the record's \<open>ai_analysis\<close> to the card as it is (line
  255). Without an analysis (\<open>null\<close>) the card renders nothing. For an analysis that
  holds the model name and no other field, the card is its header, with the fixed
  badge and the model badge showing the name, and an empty content block: no
  \<open>analysis-item\<close> entry is rendered.
\<close>

theorem analysis_card_sections:
  "AIAnalysisCard None = None \<and>
   AIAnalysisCard (Some \<lparr>ai_model = Some m, classification = None, summary = None,
          description = None, key_topics = None, key_subjects = None, entities = None,
          analysis_tags = None, confidence = None, extra_keys = []\<rparr>) =
     Some (Elem ''div'' ''ai-analysis-card''
       [Elem ''div'' ''analysis-header''
          [Elem ''span'' ''ai-badge''
             [Text ([CHR 0xF0, CHR 0x9F, CHR 0xA4, CHR 0x96] @ '' AI Analysis'')],
           Elem ''span'' ''model-badge'' [Text m]],
        Elem ''div'' ''analysis-content'' []]) \<and>
   rendered ''analysis-item'' (AIAnalysisCard (Some \<lparr>ai_model = Some m, classification = None,
          summary = None, description = None, key_topics = None, key_subjects = None,
          entities = None, analysis_tags = None, confidence = None, extra_keys = []\<rparr>)) = []"
  by (simp add: AIAnalysisCard_def Object_keys_def key_of_def when_truthy_def truthy_str_def
      truthy_text_def str_child_def rendered_def)

theorem analysis_card_sections_witness:
  "rendered ''model-badge'' (AIAnalysisCard (Some \<lparr>ai_model = Some ''x'',
          classification = None, summary = None, description = None, key_topics = None,
          key_subjects = None, entities = None, analysis_tags = None, confidence = None,
          extra_keys = []\<rparr>)) = [Elem ''span'' ''model-badge'' [Text ''x'']] \<and>
   rendered ''analysis-item'' (AIAnalysisCard (Some \<lparr>ai_model = Some ''x'',
          classification = None, summary = None, description = None, key_topics = None,
          key_subjects = None, entities = None, analysis_tags = None, confidence = None,
          extra_keys = []\<rparr>)) = []"
  using analysis_card_sections [of "''x''"]
  by (simp add: rendered_def)

subsection \<open>Switching tabs\<close>

lemma sample_page_uploader: "uploader sample_page = Some sample_uploader"
  by (simp add: sample_page_def)

lemma sample_page_app: "app sample_page = App_init"
  by (simp add: sample_page_def page_init_def reconcile_def)

lemma requests_loadFiles: "requests (snd (loadFiles fr a)) = [AxiosGet (API @ ''/files'')]"
  by (cases fr) (simp_all add: loadFiles_def requests_def)

lemma requests_loadAnalytics:
  "requests (snd (loadAnalytics ar a)) = [AxiosGet (API @ ''/analytics'')]"
  by (cases ar) (simp_all add: loadAnalytics_def requests_def)

lemma requests_append: "requests (xs @ ys) = requests xs @ requests ys"
  by (simp add: requests_def)

lemma requests_post: "requests (AxiosPost q b # xs) = AxiosPost q b # requests xs"
  by (simp add: requests_def)

lemma requests_handleUploadSuccess:
  "requests (snd (handleUploadSuccess fr ar d a)) =
     [AxiosGet (API @ ''/files''), AxiosGet (API @ ''/analytics'')]"
  by (simp add: handleUploadSuccess_eq requests_append requests_loadFiles requests_loadAnalytics)

lemma click_upload_accepted:
  assumes "uploader w = Some u" and "file u = Some f" and "success d"
  shows "click_upload (Resolved d) fr ar w =
     (reconcile (w\<lparr>uploader :=
          Some (u\<lparr>file := None, tags := [], isPublic := False, uploading := False\<rparr>),
        app := fst (handleUploadSuccess fr ar d (app w))\<rparr>),
      AxiosPost (API @ ''/upload'') (FormData (upload_formData f u)) #
      snd (handleUploadSuccess fr ar d (app w)))"
proof -
  have "handleUpload (handleUploadSuccess fr ar) (Resolved d) (u, app w) =
          ((u\<lparr>file := None, tags := [], isPublic := False, uploading := False\<rparr>,
            fst (handleUploadSuccess fr ar d (app w))),
           AxiosPost (API @ ''/upload'') (FormData (upload_formData f u)) #
           snd (handleUploadSuccess fr ar d (app w)))"
    using assms(2,3) by (rule upload_accepted) simp
  then show ?thesis
    by (simp add: click_upload_def assms(1))
qed

text \<open>
  C9, as the code has it. A click on a navigation button sends no request and has no
  other effect; of \<open>App\<close>'s state it changes the active tab only (the file
  collection, the snapshot and \<open>loading\<close> are untouched). The state of a child
  component lasts while the child is rendered: the uploader keeps its pending file,
  tags and visibility when the new tab is Upload and loses them when it is not, and
  the search bar keeps its fields when the new tab is Files and loses them when it is
  not. The transition to Files that a successful upload forces is the one that sends
  requests: after the upload request, one for the listing and one for the snapshot.
\<close>

theorem tab_switch_frame:
  "snd (click_tab t w) = [] \<and>
   app (fst (click_tab t w)) = (app w)\<lparr>activeTab := t\<rparr> \<and>
   uploader (fst (click_tab t w)) =
     (if t = TabUpload
      then Some (case uploader w of None \<Rightarrow> FileUploader_init | Some u \<Rightarrow> u) else None) \<and>
   searchbar (fst (click_tab t w)) =
     (if t = TabFiles
      then Some (case searchbar w of None \<Rightarrow> SearchBar_init | Some b \<Rightarrow> b) else None) \<and>
   (uploader w = Some u \<and> file u = Some f \<and> success d \<longrightarrow>
      activeTab (app (fst (click_upload (Resolved d) fr ar w))) = TabFiles \<and>
      requests (snd (click_upload (Resolved d) fr ar w)) =
        [AxiosPost (API @ ''/upload'') (FormData (upload_formData f u)),
         AxiosGet (API @ ''/files''), AxiosGet (API @ ''/analytics'')])"
proof -
  have tabs: "snd (click_tab t w) = [] \<and>
     app (fst (click_tab t w)) = (app w)\<lparr>activeTab := t\<rparr> \<and>
     uploader (fst (click_tab t w)) =
       (if t = TabUpload
        then Some (case uploader w of None \<Rightarrow> FileUploader_init | Some u \<Rightarrow> u) else None) \<and>
     searchbar (fst (click_tab t w)) =
       (if t = TabFiles
        then Some (case searchbar w of None \<Rightarrow> SearchBar_init | Some b \<Rightarrow> b) else None)"
    by (simp add: click_tab_def reconcile_def setActiveTab_def)
  have forced: "activeTab (app (fst (click_upload (Resolved d) fr ar w))) = TabFiles \<and>
      requests (snd (click_upload (Resolved d) fr ar w)) =
        [AxiosPost (API @ ''/upload'') (FormData (upload_formData f u)),
         AxiosGet (API @ ''/files''), AxiosGet (API @ ''/analytics'')]"
    if "uploader w = Some u" and "file u = Some f" and "success d"
    using click_upload_accepted [OF that, of fr ar]
    by (simp add: reconcile_def activeTab_handleUploadSuccess requests_handleUploadSuccess
        requests_post)
  from tabs forced show ?thesis by blast
qed

theorem tab_switch_frame_witness:
  "snd (click_tab TabFiles sample_page) = [] \<and>
   app (fst (click_tab TabFiles sample_page)) = App_init\<lparr>activeTab := TabFiles\<rparr> \<and>
   uploader (fst (click_tab TabFiles sample_page)) = None \<and>
   searchbar (fst (click_tab TabFiles sample_page)) = Some SearchBar_init \<and>
   activeTab (app (fst (click_upload (Resolved sample_result) (Resolved []) Rejected
      sample_page))) = TabFiles \<and>
   requests (snd (click_upload (Resolved sample_result) (Resolved []) Rejected sample_page)) =
     [AxiosPost (API @ ''/upload'') (FormData (upload_formData sample_upload sample_uploader)),
      AxiosGet (API @ ''/files''), AxiosGet (API @ ''/analytics'')]"
  using tab_switch_frame [of TabFiles sample_page sample_uploader sample_upload sample_result
      "Resolved []" Rejected]
  by (simp add: sample_page_uploader sample_page_app sample_uploader_file sample_result_def
      sample_page_def page_init_def reconcile_def App_init_def)

text \<open>
  The claim as written lets a tab switch change the active tab and nothing else. On
  the page where the sample file is selected, a click on Files leaves no uploader
  state, and the click back on Upload mounts the uploader with no file selected.
\<close>

theorem tab_switch_discards_pending_upload:
  "file sample_uploader = Some sample_upload \<and>
   uploader sample_page = Some sample_uploader \<and>
   uploader (fst (click_tab TabFiles sample_page)) = None \<and>
   uploader (fst (click_tab TabUpload (fst (click_tab TabFiles sample_page)))) =
     Some FileUploader_init \<and>
   file FileUploader_init = None"
  by (simp add: sample_uploader_file sample_page_uploader click_tab_def reconcile_def
      setActiveTab_def FileUploader_init_def)

end
